theory Spec2Isabelle
  imports Complex_Main
begin

section \<open>Python values, errors and the configuration dictionary\<close>

text \<open>
  The development embeds \<^verbatim>\<open>src/hqm/circuits/flexiblecircuit.py\<close>: the constructor
  \<^verbatim>\<open>FlexibleCircuit.__init__\<close>, the counter \<^verbatim>\<open>__calculate_weights\<close> and the circuit
  function \<^verbatim>\<open>qnode\<close> built by \<^verbatim>\<open>circ\<close>.

  Every exception the code can raise is a value. \<^verbatim>\<open>raise(f"...")\<close> raises a \<^verbatim>\<open>str\<close>,
  which Python 3 turns into \<^verbatim>\<open>TypeError: exceptions must derive from BaseException\<close>;
  the module defines no exception class of its own.
\<close>

datatype pyerror =
    NameError string
  | TypeError
  | KeyError string
  | AttributeError
  | IndexError
  | LibraryError string

text \<open>
  A block of gate tokens is either a nested Python list of rows (as in the docstring of
  \<^verbatim>\<open>__init__\<close>) or a two-dimensional \<^verbatim>\<open>numpy\<close> array, given by its column count and
  its rows (its \<^verbatim>\<open>shape\<close> is the row count and that column count).
\<close>

datatype grid =
    NestedList "string list list"
  | NdArray nat "string list list"

text \<open>
  The configuration dictionary, by the four keys the code ever looks up. A field is
  \<open>None\<close> when the key is absent from the dictionary. Values are typed as the data
  model types them: blocks are grids of tokens, the mask is a list of booleans.
\<close>

record config =
  cfg_F :: "grid option"
  cfg_U :: "grid option"
  cfg_M :: "bool list option"
  cfg_V :: "grid option"

text \<open>
  Operations in PennyLane's queue while the circuit function runs:
  \<^item> \<open>AngleEmbedding features wires\<close>, the template that rotates wire \<open>wires ! i\<close> by
    the angle \<open>features ! i\<close>, once for each feature;
  \<^item> \<open>AmplitudeEmbedding features wires normalize\<close>, the single preparation of the state
    whose amplitudes over \<open>wires\<close> are \<open>features\<close>, divided by their norm when
    \<open>normalize\<close> is set;
  \<^item> \<open>ExpvalPauliZ i\<close>, the request \<^verbatim>\<open>qml.expval(qml.PauliZ(wires=i))\<close>.
\<close>

datatype 'f operation =
    AngleEmbedding "'f list" "nat list"
  | AmplitudeEmbedding "'f list" "nat list" bool
  | ExpvalPauliZ nat

section \<open>The constructor\<close>

text \<open>
  Objects a name of the constructor's scope can be bound to: the four parameters and the
  names the module binds at top level (lines 1 to 11).
\<close>

datatype 'd pyobj =
    ObjSelf
  | ObjConfig config
  | ObjDev 'd
  | ObjStr string
  | ObjModule string
  | ObjClass string

definition init_scope :: "config \<Rightarrow> 'd \<Rightarrow> string \<Rightarrow> (string \<times> 'd pyobj) list" where
  "init_scope config dev encoding =
     [(''self'', ObjSelf),
      (''config'', ObjConfig config),
      (''dev'', ObjDev dev),
      (''encoding'', ObjStr encoding),
      (''FunctionType'', ObjClass ''types.FunctionType''),
      (''chain'', ObjClass ''itertools.chain''),
      (''qml'', ObjModule ''pennylane''),
      (''np'', ObjModule ''numpy''),
      (''sys'', ObjModule ''sys''),
      (''QuantumCircuit'', ObjClass ''QuantumCircuit''),
      (''FlexibleCircuit'', ObjClass ''FlexibleCircuit'')]"

text \<open>
  Reading a name: the locals, then the module globals; a name bound in neither (and that
  is no builtin) raises \<^verbatim>\<open>NameError\<close>.
\<close>

definition load_name :: "(string \<times> 'a) list \<Rightarrow> string \<Rightarrow> pyerror + 'a" where
  "load_name scope x =
     (case map_of scope x of
        None \<Rightarrow> Inl (NameError x)
      | Some v \<Rightarrow> Inr v)"

text \<open>
  Code the constructor calls that is not part of this file: the constructor of the
  superclass \<^verbatim>\<open>QuantumCircuit\<close> (it receives the evaluated keyword arguments and yields
  the device stored in \<^verbatim>\<open>self.dev\<close>), \<^verbatim>\<open>numpy.shape\<close>, and the decorator
  \<^verbatim>\<open>qml.qnode(dev)\<close> of line 136, which accepts a device or raises (\<open>None\<close> is the
  default \<^verbatim>\<open>dev = None\<close>). All three are parameters.
\<close>

record 'd externals =
  super_init :: "'d pyobj \<Rightarrow> 'd pyobj \<Rightarrow> 'd pyobj \<Rightarrow> pyerror + 'd"
  np_shape :: "grid \<Rightarrow> pyerror + nat list"
  qml_qnode :: "'d option \<Rightarrow> pyerror + unit"

definition raise_str :: "string \<Rightarrow> pyerror + 'a" where
  "raise_str msg = Inl TypeError"

text \<open>Lines 75 to 78: the checks on the encoding and on the keys of the dictionary.\<close>

definition validate :: "config \<Rightarrow> string \<Rightarrow> pyerror + unit" where
  "validate config encoding =
     (if encoding \<notin> set [''angle'', ''amplitude'']
        then raise_str (''encoding can be angle or amplitude, found '' @ encoding)
      else if cfg_F config = None
        then raise_str ''Config does not contain configuration for circuit F component''
      else if cfg_U config = None
        then raise_str ''Config does not contain configuration for circuit U component''
      else if cfg_M config = None
        then raise_str ''Config does not contain configuration for circuit M component''
      else Inr ())"

text \<open>
  \<^verbatim>\<open>__calculate_weights\<close>: \<^verbatim>\<open>list(chain(*g))\<close> lists the tokens of a grid row by row, and
  the loop adds one for each token that contains the character \<^verbatim>\<open>R\<close>.
\<close>

fun chain_list :: "grid \<Rightarrow> string list" where
  "chain_list (NestedList rows) = concat rows"
| "chain_list (NdArray c rows) = concat rows"

fun count_R :: "nat \<Rightarrow> string list \<Rightarrow> nat" where
  "count_R ct [] = ct"
| "count_R ct (el # els) = count_R (if CHR ''R'' \<in> set el then ct + 1 else ct) els"

definition calculate_weights :: "config \<Rightarrow> pyerror + nat" where
  "calculate_weights config =
     (case cfg_V config of
        None \<Rightarrow> Inl (KeyError ''V'')
      | Some v \<Rightarrow>
          (case cfg_U config of
             None \<Rightarrow> Inl (KeyError ''U'')
           | Some u \<Rightarrow> Inr (count_R (count_R 0 (chain_list v)) (chain_list u))))"

section \<open>The circuit function\<close>

text \<open>
  The two PennyLane templates called at lines 156 and 157 are parameters: a call
  either raises, queuing nothing, or queues operations.
\<close>

record 'f templates =
  qml_AngleEmbedding :: "'f list \<Rightarrow> nat list \<Rightarrow> pyerror + 'f operation list"
  qml_AmplitudeEmbedding :: "'f list \<Rightarrow> nat list \<Rightarrow> bool \<Rightarrow> pyerror + 'f operation list"

text \<open>
  The circuit function threads the queue of operations emitted so far; an exception
  leaves the queue as it was when it was raised. Lines 156 and 157, the embedding:
\<close>

definition embedding ::
  "'f templates \<Rightarrow> string \<Rightarrow> 'f list \<Rightarrow> nat \<Rightarrow> 'f operation list \<times> (pyerror + unit)" where
  "embedding tmpl encoding inputs n_qubits =
     (case (if encoding = ''angle''
            then qml_AngleEmbedding tmpl inputs [0..<n_qubits] else Inr []) of
        Inl e \<Rightarrow> ([], Inl e)
      | Inr angle_ops \<Rightarrow>
          (case (if encoding = ''amplitude''
                 then qml_AmplitudeEmbedding tmpl inputs [0..<n_qubits] True else Inr []) of
             Inl e \<Rightarrow> (angle_ops, Inl e)
           | Inr amplitude_ops \<Rightarrow> (angle_ops @ amplitude_ops, Inr ())))"

text \<open>The attribute \<^verbatim>\<open>shape\<close>: a Python list has none.\<close>

fun shape :: "grid \<Rightarrow> pyerror + nat \<times> nat" where
  "shape (NestedList rows) = Inl AttributeError"
| "shape (NdArray c rows) = Inr (length rows, c)"

text \<open>The two nested loops over a block; their body is \<^verbatim>\<open>pass\<close>.\<close>

fun inner_loop :: "nat list \<Rightarrow> 'f operation list \<Rightarrow> 'f operation list" where
  "inner_loop [] tape = tape"
| "inner_loop (j # js) tape = inner_loop js tape"

fun outer_loop :: "nat list \<Rightarrow> nat \<Rightarrow> 'f operation list \<Rightarrow> 'f operation list" where
  "outer_loop [] c tape = tape"
| "outer_loop (i # is) c tape = outer_loop is c (inner_loop [0..<c] tape)"

definition block_loop :: "grid \<Rightarrow> 'f operation list \<Rightarrow> pyerror + 'f operation list" where
  "block_loop g tape =
     (case shape g of
        Inl e \<Rightarrow> Inl e
      | Inr (r, c) \<Rightarrow> Inr (outer_loop [0..<r] c tape))"

text \<open>
  The measurement loop, lines 173 to 178: \<^verbatim>\<open>config['M']\<close> is looked up in each
  iteration, and indexing the mask beyond its end raises \<^verbatim>\<open>IndexError\<close>.
\<close>

fun measure_loop ::
  "config \<Rightarrow> nat list \<Rightarrow> 'f operation list \<Rightarrow> 'f operation list \<Rightarrow>
   'f operation list \<times> (pyerror + 'f operation list)" where
  "measure_loop config [] tape measurements = (tape, Inr measurements)"
| "measure_loop config (i # is) tape measurements =
     (case cfg_M config of
        None \<Rightarrow> (tape, Inl (KeyError ''M''))
      | Some m \<Rightarrow>
          if i < length m then
            (if m ! i
               then measure_loop config is (tape @ [ExpvalPauliZ i]) (measurements @ [ExpvalPauliZ i])
               else measure_loop config is tape measurements)
          else (tape, Inl IndexError))"

text \<open>The body of the function \<^verbatim>\<open>qnode\<close>, lines 155 to 178.\<close>

definition qnode_body ::
  "'f templates \<Rightarrow> nat \<Rightarrow> config \<Rightarrow> string \<Rightarrow> 'f list \<Rightarrow> 'f list \<Rightarrow>
   'f operation list \<times> (pyerror + 'f operation list)" where
  "qnode_body tmpl n_qubits config encoding inputs weights =
     (case embedding tmpl encoding inputs n_qubits of
        (tape, Inl e) \<Rightarrow> (tape, Inl e)
      | (tape, Inr emb) \<Rightarrow>
     (case cfg_V config of
        None \<Rightarrow> (tape, Inl (KeyError ''V''))
      | Some V \<Rightarrow>
          (case block_loop V tape of
             Inl e \<Rightarrow> (tape, Inl e)
           | Inr tape1 \<Rightarrow>
               (case cfg_U config of
                  None \<Rightarrow> (tape1, Inl (KeyError ''U''))
                | Some U \<Rightarrow>
                    (case block_loop U tape1 of
                       Inl e \<Rightarrow> (tape1, Inl e)
                     | Inr tape2 \<Rightarrow> measure_loop config [0..<n_qubits] tape2 [])))))"

text \<open>
  The decorated function, as called: PennyLane runs the body, passes on its exception
  if it raises, and otherwise hands the queue and the returned list to the device.
  What the device does with them (it may refuse them, too) is the parameter
  \<open>execute\<close>.
\<close>

definition qnode ::
  "('f operation list \<Rightarrow> 'f operation list \<Rightarrow> pyerror + 'r) \<Rightarrow> 'f templates \<Rightarrow>
   nat \<Rightarrow> config \<Rightarrow> string \<Rightarrow> 'f list \<Rightarrow> 'f list \<Rightarrow> pyerror + 'r" where
  "qnode execute tmpl n_qubits config encoding inputs weights =
     (case qnode_body tmpl n_qubits config encoding inputs weights of
        (tape, Inl e) \<Rightarrow> Inl e
      | (tape, Inr measurements) \<Rightarrow> execute tape measurements)"

text \<open>\<^verbatim>\<open>circ\<close>: the decorator is applied to the device, then the function is returned.\<close>

definition circ ::
  "'d externals \<Rightarrow> ('f operation list \<Rightarrow> 'f operation list \<Rightarrow> pyerror + 'r) \<Rightarrow>
   'f templates \<Rightarrow> 'd option \<Rightarrow> nat \<Rightarrow> config \<Rightarrow> string \<Rightarrow>
   pyerror + ('f list \<Rightarrow> 'f list \<Rightarrow> pyerror + 'r)" where
  "circ ext execute tmpl dev n_qubits config encoding =
     (case qml_qnode ext dev of
        Inl e \<Rightarrow> Inl e
      | Inr deco \<Rightarrow> Inr (qnode execute tmpl n_qubits config encoding))"

text \<open>
  The object a completed construction leaves behind; its \<^verbatim>\<open>circuit\<close> attribute is
  what \<open>circ\<close> returns on the four stored fields.
\<close>

record 'd flexible_circuit =
  self_dev :: 'd
  self_config :: config
  self_encoding :: string
  self_n_qubits :: nat
  self_weight_shape :: nat

text \<open>
  \<^verbatim>\<open>__init__\<close>. Line 73 evaluates the keyword arguments \<^verbatim>\<open>n_qubits\<close> and \<^verbatim>\<open>n_layers\<close>
  before the superclass constructor is called; then the checks, the qubit count from
  \<^verbatim>\<open>np.shape(config['U'])[0]\<close>, the weight count, and the call of \<^verbatim>\<open>circ\<close>, of which
  only the decorator runs at construction.
\<close>

definition init ::
  "'d externals \<Rightarrow> config \<Rightarrow> 'd \<Rightarrow> string \<Rightarrow> pyerror + 'd flexible_circuit" where
  "init ext config dev encoding =
     (let scope = init_scope config dev encoding in
      case load_name scope ''n_qubits'' of
        Inl e \<Rightarrow> Inl e
      | Inr nq \<Rightarrow>
     (case load_name scope ''n_layers'' of
        Inl e \<Rightarrow> Inl e
      | Inr nl \<Rightarrow>
     (case load_name scope ''dev'' of
        Inl e \<Rightarrow> Inl e
      | Inr d \<Rightarrow>
     (case super_init ext nq nl d of
        Inl e \<Rightarrow> Inl e
      | Inr sdev \<Rightarrow>
     (case validate config encoding of
        Inl e \<Rightarrow> Inl e
      | Inr u \<Rightarrow>
     (case cfg_U config of
        None \<Rightarrow> Inl (KeyError ''U'')
      | Some U \<Rightarrow>
     (case np_shape ext U of
        Inl e \<Rightarrow> Inl e
      | Inr [] \<Rightarrow> Inl IndexError
      | Inr (n # ns) \<Rightarrow>
     (case calculate_weights config of
        Inl e \<Rightarrow> Inl e
      | Inr ct \<Rightarrow>
     (case qml_qnode ext (Some sdev) of
        Inl e \<Rightarrow> Inl e
      | Inr deco \<Rightarrow>
          Inr \<lparr>self_dev = sdev, self_config = config, self_encoding = encoding,
               self_n_qubits = n, self_weight_shape = ct\<rparr>)))))))))"

section \<open>Configurations used as concrete inputs\<close>

text \<open>The example of the docstring of \<^verbatim>\<open>__init__\<close>: three qubits, two layers.\<close>

definition doc_config :: config where
  "doc_config =
     \<lparr>cfg_F = Some (NestedList
        [[''H'', ''CNOT-2''], [''H'', ''CNOT-3''], [''H'', ''CNOT-1'']]),
      cfg_U = Some (NestedList
        [[''RY'', ''CNOT-2'', ''RY'', ''RY'', ''CNOT-2'', ''RY''],
         [''RY'', ''CNOT-3'', ''RY'', ''RY'', ''CNOT-3'', ''RY''],
         [''RY'', ''CNOT-1'', ''RY'', ''RY'', ''CNOT-1'', ''RY'']]),
      cfg_M = Some [True, True, True],
      cfg_V = None\<rparr>"

text \<open>
  A stand-in for the external code, for evaluating the constructor: a superclass
  constructor that stores the device, \<^verbatim>\<open>numpy.shape\<close> as \<^verbatim>\<open>numpy\<close> 1.24 and later
  compute it (rows of unequal lengths are refused with \<^verbatim>\<open>ValueError\<close>), and a
  decorator that refuses \<^verbatim>\<open>None\<close>.
\<close>

definition plain_externals :: "'d externals" where
  "plain_externals =
     \<lparr>super_init = (\<lambda>nq nl d. case d of ObjDev dev \<Rightarrow> Inr dev | _ \<Rightarrow> Inl TypeError),
      np_shape = (\<lambda>g. case g of
                     NestedList [] \<Rightarrow> Inr [0]
                   | NestedList (r # rs) \<Rightarrow>
                       if list_all (\<lambda>r'. length r' = length r) rs
                       then Inr [Suc (length rs), length r]
                       else Inl (LibraryError ''ValueError'')
                   | NdArray c rows \<Rightarrow> Inr [length rows, c]),
      qml_qnode = (\<lambda>dev. case dev of
                     None \<Rightarrow> Inl (LibraryError ''QuantumFunctionError'')
                   | Some d \<Rightarrow> Inr ())\<rparr>"

text \<open>
  A stand-in for the two templates, for evaluating the circuit function, with the
  argument checks PennyLane makes before it queues anything: \<^verbatim>\<open>AngleEmbedding\<close>
  refuses more features than wires and keeps one wire per feature;
  \<^verbatim>\<open>AmplitudeEmbedding\<close> (called without padding) refuses a feature vector whose length
  is not 2 to the number of wires; both refuse to act on no wire at all.
\<close>

definition pennylane_templates :: "'f templates" where
  "pennylane_templates =
     \<lparr>qml_AngleEmbedding = (\<lambda>features wires.
         if features = [] then Inl (LibraryError ''ValueError'')
         else if length wires < length features then Inl (LibraryError ''ValueError'')
         else Inr [AngleEmbedding features (take (length features) wires)]),
      qml_AmplitudeEmbedding = (\<lambda>features wires flag.
         if wires = [] then Inl (LibraryError ''ValueError'')
         else if length features = 2 ^ length wires
         then Inr [AmplitudeEmbedding features wires flag]
         else Inl (LibraryError ''ValueError''))\<rparr>"

text \<open>The docstring example without its \<^verbatim>\<open>U\<close> entry.\<close>

definition no_U_config :: config where
  "no_U_config = doc_config\<lparr>cfg_U := None\<rparr>"

text \<open>
  Two qubits whose fixed block has rows of lengths 2 and 1, a trainable block of three
  rows and a mask of one entry.
\<close>

definition ragged_config :: config where
  "ragged_config =
     \<lparr>cfg_F = Some (NestedList [[''H'', ''CNOT-2''], [''H'']]),
      cfg_U = Some (NestedList [[''RY''], [''RY''], [''RY'']]),
      cfg_M = Some [True],
      cfg_V = None\<rparr>"

text \<open>
  One qubit whose fixed block holds an entangling token. Its target is the token's own
  row if targets count from 0, and lies outside the circuit if they count from 1 as in
  the docstring.
\<close>

definition self_target_config :: config where
  "self_target_config =
     \<lparr>cfg_F = Some (NestedList [[''CNOT-0'']]),
      cfg_U = Some (NestedList [[''RY'']]),
      cfg_M = Some [True],
      cfg_V = None\<rparr>"

text \<open>
  The blocks of the docstring example as \<^verbatim>\<open>numpy\<close> arrays, the fixed block also under
  the key \<^verbatim>\<open>V\<close> that the code reads, and the mask that selects qubits 0 and 2.
\<close>

definition array_config :: config where
  "array_config =
     \<lparr>cfg_F = Some (NdArray 2
        [[''H'', ''CNOT-2''], [''H'', ''CNOT-3''], [''H'', ''CNOT-1'']]),
      cfg_U = Some (NdArray 3
        [[''RY'', ''CNOT-2'', ''RY''],
         [''RY'', ''CNOT-3'', ''RY''],
         [''RY'', ''CNOT-1'', ''RY'']]),
      cfg_M = Some [True, False, True],
      cfg_V = Some (NdArray 2
        [[''H'', ''CNOT-2''], [''H'', ''CNOT-3''], [''H'', ''CNOT-1'']])\<rparr>"

text \<open>
  One qubit (one row under \<^verbatim>\<open>V\<close> and \<^verbatim>\<open>U\<close>) with a mask of three true entries, and
  three qubits with a mask of one entry.
\<close>

definition long_mask_config :: config where
  "long_mask_config =
     \<lparr>cfg_F = Some (NdArray 1 [[''H'']]),
      cfg_U = Some (NdArray 1 [[''RY'']]),
      cfg_M = Some [True, True, True],
      cfg_V = Some (NdArray 1 [[''H'']])\<rparr>"

definition short_mask_config :: config where
  "short_mask_config =
     \<lparr>cfg_F = Some (NdArray 1 [[''H''], [''H''], [''H'']]),
      cfg_U = Some (NdArray 1 [[''RY''], [''RY''], [''RY'']]),
      cfg_M = Some [True],
      cfg_V = Some (NdArray 1 [[''H''], [''H''], [''H'']])\<rparr>"

section \<open>Notions used to state the properties\<close>


text \<open>Rewriting every gate token of a configuration, leaving its shape and keys alone.\<close>

fun map_grid :: "(string \<Rightarrow> string) \<Rightarrow> grid \<Rightarrow> grid" where
  "map_grid g (NestedList rows) = NestedList (map (map g) rows)"
| "map_grid g (NdArray c rows) = NdArray c (map (map g) rows)"

definition map_tokens :: "(string \<Rightarrow> string) \<Rightarrow> config \<Rightarrow> config" where
  "map_tokens g config =
     config\<lparr>cfg_F := map_option (map_grid g) (cfg_F config),
            cfg_U := map_option (map_grid g) (cfg_U config),
            cfg_V := map_option (map_grid g) (cfg_V config)\<rparr>"

text \<open>A block is rectangular when all its rows have the length of the first.\<close>

fun rows_of :: "grid \<Rightarrow> string list list" where
  "rows_of (NestedList rows) = rows"
| "rows_of (NdArray c rows) = rows"

definition rectangular :: "grid \<Rightarrow> bool" where
  "rectangular g =
     (case rows_of g of
        [] \<Rightarrow> True
      | r # rs \<Rightarrow> list_all (\<lambda>r'. length r' = length r) rs)"

text \<open>The tokens the counter counts: those containing the character \<^verbatim>\<open>R\<close>.\<close>

definition has_R :: "string \<Rightarrow> bool" where
  "has_R el = (CHR ''R'' \<in> set el)"

section \<open>Helper lemmas\<close>

lemma load_name_n_qubits:
  "load_name (init_scope config dev encoding) ''n_qubits'' = Inl (NameError ''n_qubits'')"
  by (simp add: load_name_def init_scope_def)

lemma init_raises_NameError:
  "init ext config dev encoding = Inl (NameError ''n_qubits'')"
  by (simp add: init_def Let_def load_name_n_qubits)

lemma count_R_filter: "count_R ct els = ct + length (filter has_R els)"
  by (induction els arbitrary: ct) (simp_all add: has_R_def)

lemma calculate_weights_present:
  "cfg_V config = Some v \<Longrightarrow> cfg_U config = Some u \<Longrightarrow>
   calculate_weights config =
     Inr (length (filter has_R (chain_list v)) + length (filter has_R (chain_list u)))"
  by (simp add: calculate_weights_def count_R_filter)

lemma inner_loop_pass: "inner_loop js tape = tape"
  by (induction js) simp_all

lemma outer_loop_pass: "outer_loop is c tape = tape"
  by (induction "is") (simp_all add: inner_loop_pass)

lemma block_loop_NdArray: "block_loop (NdArray c rows) tape = Inr tape"
  by (simp add: block_loop_def outer_loop_pass)



lemma measure_loop_filter:
  "cfg_M config = Some m \<Longrightarrow> \<forall>i \<in> set is. i < length m \<Longrightarrow>
   measure_loop config is tape ms =
     (tape @ map ExpvalPauliZ (filter (\<lambda>i. m ! i) is),
      Inr (ms @ map ExpvalPauliZ (filter (\<lambda>i. m ! i) is)))"
  by (induction "is" arbitrary: tape ms) simp_all


lemma mask_filter_length:
  "length (filter (\<lambda>i. m ! i) [0..<length m]) = length (filter id m)"
proof -
  have "filter id (map (\<lambda>i. m ! i) [0..<length m]) =
        map (\<lambda>i. m ! i) (filter (id \<circ> (\<lambda>i. m ! i)) [0..<length m])"
    by (rule filter_map)
  then have "length (filter id (map (\<lambda>i. m ! i) [0..<length m])) =
             length (filter (\<lambda>i. m ! i) [0..<length m])"
    by (simp add: comp_def)
  then show ?thesis by (simp add: map_nth)
qed

lemma measure_loop_app:
  "cfg_M config = Some m \<Longrightarrow> \<forall>i \<in> set xs. i < length m \<Longrightarrow>
   measure_loop config (xs @ ys) tape ms =
     measure_loop config ys (tape @ map ExpvalPauliZ (filter (\<lambda>i. m ! i) xs))
       (ms @ map ExpvalPauliZ (filter (\<lambda>i. m ! i) xs))"
  by (induction xs arbitrary: tape ms) simp_all

lemma measure_loop_short:
  assumes "cfg_M config = Some m" and "length m < n"
  shows "measure_loop config [0..<n] tape ms =
           (tape @ map ExpvalPauliZ (filter (\<lambda>i. m ! i) [0..<length m]), Inl IndexError)"
proof -
  have "[0..<length m + (n - length m)] = [0..<length m] @ [length m..<length m + (n - length m)]"
    by (rule upt_add_eq_append) simp
  moreover have "length m + (n - length m) = n"
    using assms(2) by simp
  ultimately have "[0..<n] = [0..<length m] @ [length m..<n]"
    by simp
  moreover have "[length m..<n] = length m # [Suc (length m)..<n]"
    using assms(2) by (rule upt_conv_Cons)
  ultimately have split: "[0..<n] = [0..<length m] @ (length m # [Suc (length m)..<n])"
    by simp
  have bound: "\<forall>i \<in> set [0..<length m]. i < length m" by simp
  show ?thesis
    unfolding split
    by (simp add: measure_loop_app [OF assms(1) bound] assms(1))
qed

lemma mask_filter_take:
  assumes "n \<le> length m"
  shows "length (filter (\<lambda>i. m ! i) [0..<n]) = length (filter id (take n m))"
proof -
  have "filter (\<lambda>i. take n m ! i) [0..<n] = filter (\<lambda>i. m ! i) [0..<n]"
    by (rule filter_cong) simp_all
  moreover have "length (take n m) = n"
    using assms by simp
  ultimately show ?thesis
    using mask_filter_length [of "take n m"] by simp
qed








lemma qnode_body_no_V:
  "embedding tmpl encoding inputs n_qubits = (tape, Inr ()) \<Longrightarrow> cfg_V config = None \<Longrightarrow>
   qnode_body tmpl n_qubits config encoding inputs weights = (tape, Inl (KeyError ''V''))"
  by (simp add: qnode_body_def)

lemma qnode_body_arrays:
  "embedding tmpl encoding inputs n_qubits = (tape, Inr ()) \<Longrightarrow>
   cfg_V config = Some (NdArray cv rv) \<Longrightarrow> cfg_U config = Some (NdArray cu ru) \<Longrightarrow>
   qnode_body tmpl n_qubits config encoding inputs weights =
     measure_loop config [0..<n_qubits] tape []"
  by (simp add: qnode_body_def block_loop_NdArray)



lemma qnode_raises:
  "qnode_body tmpl n_qubits config encoding inputs weights = (tape, Inl e) \<Longrightarrow>
   qnode execute tmpl n_qubits config encoding inputs weights = Inl e"
  by (simp add: qnode_def)

lemma qnode_returns:
  "qnode_body tmpl n_qubits config encoding inputs weights = (tape, Inr ms) \<Longrightarrow>
   qnode execute tmpl n_qubits config encoding inputs weights = execute tape ms"
  by (simp add: qnode_def)

lemma chain_list_map_grid: "chain_list (map_grid g v) = map g (chain_list v)"
  by (cases v) (simp_all add: map_concat)

lemma count_R_map:
  assumes "\<forall>t. has_R (g t) = has_R t"
  shows "count_R ct (map g els) = count_R ct els"
proof -
  have "filter has_R (map g els) = map g (filter (has_R \<circ> g) els)"
    by (rule filter_map)
  moreover have "has_R \<circ> g = has_R"
    using assms by (simp add: fun_eq_iff)
  ultimately show ?thesis by (simp add: count_R_filter)
qed

lemma calculate_weights_map_tokens:
  assumes "\<forall>t. has_R (g t) = has_R t"
  shows "calculate_weights (map_tokens g config) = calculate_weights config"
proof (cases "cfg_V config")
  case None
  then show ?thesis by (simp add: calculate_weights_def map_tokens_def)
next
  case V: (Some v)
  show ?thesis
  proof (cases "cfg_U config")
    case None
    with V show ?thesis by (simp add: calculate_weights_def map_tokens_def)
  next
    case (Some u)
    with V show ?thesis
      by (simp add: calculate_weights_def map_tokens_def chain_list_map_grid
          count_R_map [OF assms])
  qed
qed

section \<open>Claims\<close>

text \<open>
  C9: for every configuration dictionary, device and encoding string, constructing a
  FlexibleCircuit raises NameError on \<^verbatim>\<open>n_qubits\<close> at line 73, whatever the superclass
  constructor and \<^verbatim>\<open>numpy.shape\<close> would do: the keyword arguments are evaluated before
  anything else, so no check of lines 75 to 78 is reached and no construction completes.
  The second keyword argument, \<^verbatim>\<open>n_layers\<close>, is unbound in the same way.
\<close>

theorem C9_init_always_NameError:
  "init ext config dev encoding = Inl (NameError ''n_qubits'')
   \<and> load_name (init_scope config dev encoding) ''n_layers'' = Inl (NameError ''n_layers'')"
  by (simp add: init_raises_NameError) (simp add: load_name_def init_scope_def)

text \<open>
  C2: the claim asks for the number of rotation tokens of the fixed and the trainable
  block. On the docstring example, whose blocks hold twelve \<^verbatim>\<open>RY\<close> tokens, the counter
  raises KeyError on \<^verbatim>\<open>V\<close> and returns no count; it returns 12 once the fixed block
  is also stored under the key \<^verbatim>\<open>V\<close>.
\<close>

theorem C2_count_reads_V:
  "calculate_weights doc_config = Inl (KeyError ''V'')
   \<and> calculate_weights (doc_config\<lparr>cfg_V := cfg_F doc_config\<rparr>) = Inr 12"
  by (simp add: calculate_weights_def doc_config_def)

text \<open>
  C4: on the docstring example without its \<^verbatim>\<open>U\<close> entry, construction raises NameError
  on \<^verbatim>\<open>n_qubits\<close> at line 73, not an error about the missing block; the check of line
  77, run on its own, raises TypeError, because it raises a string.
\<close>

theorem C4_missing_block_NameError:
  "cfg_U no_U_config = None
   \<and> init plain_externals no_U_config ''default.qubit'' ''angle'' = Inl (NameError ''n_qubits'')
   \<and> validate no_U_config ''angle'' = Inl TypeError"
  by (simp add: init_raises_NameError)
     (simp add: validate_def raise_str_def no_U_config_def doc_config_def)

text \<open>
  C7: with the encoding \<^verbatim>\<open>'basis'\<close>, construction raises NameError on \<^verbatim>\<open>n_qubits\<close> at
  line 73, as it does with \<^verbatim>\<open>'angle'\<close>; the check of line 75, run on its own, raises
  TypeError for \<^verbatim>\<open>'basis'\<close> and passes the two recognised values.
\<close>

theorem C7_bad_encoding_NameError:
  "init plain_externals doc_config ''default.qubit'' ''basis'' = Inl (NameError ''n_qubits'')
   \<and> init plain_externals doc_config ''default.qubit'' ''angle'' = Inl (NameError ''n_qubits'')
   \<and> validate doc_config ''basis'' = Inl TypeError
   \<and> validate doc_config ''angle'' = Inr ()
   \<and> validate doc_config ''amplitude'' = Inr ()"
  by (simp add: init_raises_NameError)
     (simp add: validate_def raise_str_def doc_config_def)

text \<open>
  C5, as stated, fails: a configuration whose fixed block has rows of lengths 2 and 1,
  whose trainable block has three rows and whose mask has one entry passes every check
  of the constructor, and construction ends in the NameError of line 73.
\<close>

theorem C5_counterexample:
  "cfg_F ragged_config = Some (NestedList [[''H'', ''CNOT-2''], [''H'']])
   \<and> \<not> rectangular (NestedList [[''H'', ''CNOT-2''], [''H'']])
   \<and> validate ragged_config ''angle'' = Inr ()
   \<and> init plain_externals ragged_config ''default.qubit'' ''angle'' =
       Inl (NameError ''n_qubits'')"
  by (simp add: init_raises_NameError)
     (simp add: validate_def ragged_config_def rectangular_def)

text \<open>
  C5, amended: the constructor makes no dimension check. Every configuration that has
  the entries F, U and M passes its checks under a recognised encoding, whatever the row
  counts of the three fields and the row lengths of the blocks.
\<close>

theorem C5_validate_ignores_dimensions:
  assumes "cfg_F config = Some f" and "cfg_U config = Some u" and "cfg_M config = Some m"
    and "encoding = ''angle'' \<or> encoding = ''amplitude''"
  shows "validate config encoding = Inr ()"
  using assms by (auto simp add: validate_def)

theorem C5_validate_ignores_dimensions_witness:
  "cfg_F ragged_config = Some (NestedList [[''H'', ''CNOT-2''], [''H'']])
   \<and> cfg_U ragged_config = Some (NestedList [[''RY''], [''RY''], [''RY'']])
   \<and> cfg_M ragged_config = Some [True]
   \<and> validate ragged_config ''amplitude'' = Inr ()"
proof -
  have f: "cfg_F ragged_config = Some (NestedList [[''H'', ''CNOT-2''], [''H'']])"
    by (simp add: ragged_config_def)
  have u: "cfg_U ragged_config = Some (NestedList [[''RY''], [''RY''], [''RY'']])"
    by (simp add: ragged_config_def)
  have m: "cfg_M ragged_config = Some [True]"
    by (simp add: ragged_config_def)
  have e: "''amplitude'' = ''angle'' \<or> ''amplitude'' = ''amplitude''" by simp
  from f u m C5_validate_ignores_dimensions [OF f u m e] show ?thesis by blast
qed

text \<open>
  C6, as stated, fails: a one-qubit configuration whose fixed block holds the entangling
  token \<^verbatim>\<open>CNOT-0\<close> passes every check of the constructor, and construction ends in the
  NameError of line 73.
\<close>

theorem C6_counterexample:
  "cfg_F self_target_config = Some (NestedList [[''CNOT-0'']])
   \<and> validate self_target_config ''angle'' = Inr ()
   \<and> init plain_externals self_target_config ''default.qubit'' ''angle'' =
       Inl (NameError ''n_qubits'')"
  by (simp add: init_raises_NameError)
     (simp add: validate_def self_target_config_def)

text \<open>
  C6, amended: the constructor makes no check of entangling targets. Its checks give
  the same outcome whatever the tokens are, and the counter it calls at line 85 looks
  at a token only to test whether it contains the character \<^verbatim>\<open>R\<close>: rewriting the
  tokens in a way that keeps which of them contain \<^verbatim>\<open>R\<close>, as any change of the
  target of an entangling token does, changes neither the outcome of the checks nor
  the count or the error of the counter.
\<close>

theorem C6_targets_unchecked:
  assumes "\<forall>t. has_R (g t) = has_R t"
  shows "validate (map_tokens h config) encoding = validate config encoding
         \<and> validate (map_tokens g config) encoding = validate config encoding
         \<and> calculate_weights (map_tokens g config) = calculate_weights config"
  using calculate_weights_map_tokens [OF assms]
  by (simp add: validate_def map_tokens_def)

theorem C6_targets_unchecked_witness:
  "(\<forall>t. has_R (if t = ''CNOT-2'' then ''CNOT-1'' else t) = has_R t)
   \<and> cfg_V (map_tokens (\<lambda>t. if t = ''CNOT-2'' then ''CNOT-1'' else t) array_config) =
       Some (NdArray 2 [[''H'', ''CNOT-1''], [''H'', ''CNOT-3''], [''H'', ''CNOT-1'']])
   \<and> validate (map_tokens (\<lambda>t. if t = ''CNOT-2'' then ''CNOT-1'' else t) array_config)
       ''angle'' = Inr ()
   \<and> calculate_weights (map_tokens (\<lambda>t. if t = ''CNOT-2'' then ''CNOT-1'' else t) array_config)
       = Inr 6"
proof -
  have r: "\<forall>t. has_R (if t = ''CNOT-2'' then ''CNOT-1'' else t) = has_R t"
    by (simp add: has_R_def)
  have v: "validate array_config ''angle'' = Inr ()"
    by (simp add: validate_def array_config_def)
  have c: "calculate_weights array_config = Inr 6"
    by (simp add: calculate_weights_def array_config_def)
  have m: "cfg_V (map_tokens (\<lambda>t. if t = ''CNOT-2'' then ''CNOT-1'' else t) array_config) =
       Some (NdArray 2 [[''H'', ''CNOT-1''], [''H'', ''CNOT-3''], [''H'', ''CNOT-1'']])"
    by (simp add: map_tokens_def array_config_def)
  from C6_targets_unchecked [OF r, of id array_config "''angle''"] r v c m
  show ?thesis by simp
qed

text \<open>
  C1: the claim asks for one operation per token of the fixed and of the trainable
  block between embedding and measurement. On the docstring example the circuit
  function emits the embedding and then raises KeyError on \<^verbatim>\<open>V\<close>: the block under
  \<^verbatim>\<open>F\<close> is never read, and the device is never reached. With the same blocks as arrays,
  the fixed one under \<^verbatim>\<open>V\<close>, the loops run over all fifteen tokens and emit nothing:
  the queue holds the embedding followed at once by the measurement requests.
\<close>

theorem C1_blocks_emit_nothing:
  "qnode_body pennylane_templates 3 doc_config ''angle'' [0.1, 0.2, 0.3 :: real]
       (replicate 12 0.5) =
     ([AngleEmbedding [0.1, 0.2, 0.3] [0, 1, 2]], Inl (KeyError ''V''))
   \<and> qnode_body pennylane_templates 3 array_config ''angle'' [0.1, 0.2, 0.3 :: real]
       (replicate 6 0.5) =
       ([AngleEmbedding [0.1, 0.2, 0.3] [0, 1, 2], ExpvalPauliZ 0, ExpvalPauliZ 2],
        Inr [ExpvalPauliZ 0, ExpvalPauliZ 2])
   \<and> qnode execute pennylane_templates 3 doc_config ''angle'' [0.1, 0.2, 0.3 :: real]
       (replicate 12 0.5) = Inl (KeyError ''V'')"
proof -
  have r: "[0..<3] = [0, 1, 2]" by (simp add: upt_rec)
  have e: "embedding pennylane_templates ''angle'' [0.1, 0.2, 0.3 :: real] 3 =
             ([AngleEmbedding [0.1, 0.2, 0.3] [0, 1, 2]], Inr ())"
    by (simp add: embedding_def pennylane_templates_def r)
  have v: "cfg_V doc_config = None" by (simp add: doc_config_def)
  have a: "qnode_body pennylane_templates 3 doc_config ''angle'' [0.1, 0.2, 0.3 :: real]
       (replicate 12 0.5) =
     ([AngleEmbedding [0.1, 0.2, 0.3] [0, 1, 2]], Inl (KeyError ''V''))"
    by (rule qnode_body_no_V [OF e v])
  have b: "qnode_body pennylane_templates 3 array_config ''angle'' [0.1, 0.2, 0.3 :: real]
       (replicate 6 0.5) =
       ([AngleEmbedding [0.1, 0.2, 0.3] [0, 1, 2], ExpvalPauliZ 0, ExpvalPauliZ 2],
        Inr [ExpvalPauliZ 0, ExpvalPauliZ 2])"
  proof -
    have av: "cfg_V array_config = Some (NdArray 2
        [[''H'', ''CNOT-2''], [''H'', ''CNOT-3''], [''H'', ''CNOT-1'']])"
      by (simp add: array_config_def)
    have au: "cfg_U array_config = Some (NdArray 3
        [[''RY'', ''CNOT-2'', ''RY''],
         [''RY'', ''CNOT-3'', ''RY''],
         [''RY'', ''CNOT-1'', ''RY'']])"
      by (simp add: array_config_def)
    have "qnode_body pennylane_templates 3 array_config ''angle'' [0.1, 0.2, 0.3 :: real]
            (replicate 6 0.5) =
          measure_loop array_config [0..<3] [AngleEmbedding [0.1, 0.2, 0.3] [0, 1, 2]] []"
      by (rule qnode_body_arrays [OF e av au])
    also have "\<dots> =
       ([AngleEmbedding [0.1, 0.2, 0.3] [0, 1, 2], ExpvalPauliZ 0, ExpvalPauliZ 2],
        Inr [ExpvalPauliZ 0, ExpvalPauliZ 2])"
      by (simp add: r array_config_def)
    finally show ?thesis .
  qed
  have c: "qnode execute pennylane_templates 3 doc_config ''angle'' [0.1, 0.2, 0.3 :: real]
       (replicate 12 0.5) = Inl (KeyError ''V'')"
    by (rule qnode_raises [OF a])
  from a b c show ?thesis by blast
qed

text \<open>
  C10: for every configuration without the key \<^verbatim>\<open>V\<close> (so for every configuration with
  exactly the keys F, U and M), the counter raises KeyError on \<^verbatim>\<open>V\<close> and returns no
  count; and whenever the embedding step completes, the circuit function raises
  KeyError on \<^verbatim>\<open>V\<close> with nothing in the queue but what the embedding put there: no
  block operation and no measurement has been emitted, and the device is not reached.
\<close>

theorem C10_KeyError_V:
  assumes "cfg_V config = None"
  shows "calculate_weights config = Inl (KeyError ''V'')
         \<and> (embedding tmpl encoding inputs n_qubits = (tape, Inr ()) \<longrightarrow>
              qnode_body tmpl n_qubits config encoding inputs weights =
                (tape, Inl (KeyError ''V''))
              \<and> qnode execute tmpl n_qubits config encoding inputs weights =
                  Inl (KeyError ''V''))"
  using assms by (simp add: calculate_weights_def qnode_raises qnode_body_no_V)

theorem C10_KeyError_V_witness:
  "cfg_V doc_config = None
   \<and> cfg_F doc_config \<noteq> None \<and> cfg_U doc_config \<noteq> None \<and> cfg_M doc_config \<noteq> None
   \<and> embedding pennylane_templates ''angle'' [0.1, 0.2, 0.3 :: real] 3 =
       ([AngleEmbedding [0.1, 0.2, 0.3] [0, 1, 2]], Inr ())
   \<and> calculate_weights doc_config = Inl (KeyError ''V'')
   \<and> qnode_body pennylane_templates 3 doc_config ''angle'' [0.1, 0.2, 0.3 :: real]
       (replicate 12 0.5) =
       ([AngleEmbedding [0.1, 0.2, 0.3] [0, 1, 2]], Inl (KeyError ''V''))"
proof -
  have h: "cfg_V doc_config = None" by (simp add: doc_config_def)
  have r: "[0..<3] = [0, 1, 2]" by (simp add: upt_rec)
  have e: "embedding pennylane_templates ''angle'' [0.1, 0.2, 0.3 :: real] 3 =
             ([AngleEmbedding [0.1, 0.2, 0.3] [0, 1, 2]], Inr ())"
    by (simp add: embedding_def pennylane_templates_def r)
  from C10_KeyError_V [OF h, of pennylane_templates "''angle''" "[0.1, 0.2, 0.3 :: real]" 3
      "[AngleEmbedding [0.1, 0.2, 0.3] [0, 1, 2]]" "replicate 12 0.5"] e
  have "calculate_weights doc_config = Inl (KeyError ''V'')
        \<and> qnode_body pennylane_templates 3 doc_config ''angle'' [0.1, 0.2, 0.3 :: real]
            (replicate 12 0.5) =
            ([AngleEmbedding [0.1, 0.2, 0.3] [0, 1, 2]], Inl (KeyError ''V''))"
    by blast
  with h e show ?thesis by (simp add: doc_config_def)
qed

text \<open>
  C3, as stated, fails. With one qubit and a mask of three true entries the run hands
  over one request, for qubit 0, not three. With three qubits and a mask of one entry
  the run raises IndexError after the request for qubit 0.
\<close>

theorem C3_counterexample:
  "qnode_body pennylane_templates 1 long_mask_config ''angle'' [0.1 :: real] [0.5] =
     ([AngleEmbedding [0.1] [0], ExpvalPauliZ 0], Inr [ExpvalPauliZ 0])
   \<and> cfg_M long_mask_config = Some [True, True, True]
   \<and> length (filter id [True, True, True]) = 3
   \<and> qnode_body pennylane_templates 3 short_mask_config ''angle'' [0.1, 0.2, 0.3 :: real]
       [0.5, 0.5, 0.5] =
       ([AngleEmbedding [0.1, 0.2, 0.3] [0, 1, 2], ExpvalPauliZ 0], Inl IndexError)"
proof -
  have r1: "[0..<1] = [0]" by (simp add: upt_rec)
  have r3: "[0..<3] = [0, 1, 2]" by (simp add: upt_rec)
  have e1: "embedding pennylane_templates ''angle'' [0.1 :: real] 1 =
              ([AngleEmbedding [0.1] [0]], Inr ())"
    by (simp add: embedding_def pennylane_templates_def r1)
  have e3: "embedding pennylane_templates ''angle'' [0.1, 0.2, 0.3 :: real] 3 =
              ([AngleEmbedding [0.1, 0.2, 0.3] [0, 1, 2]], Inr ())"
    by (simp add: embedding_def pennylane_templates_def r3)
  have lv: "cfg_V long_mask_config = Some (NdArray 1 [[''H'']])"
    by (simp add: long_mask_config_def)
  have lu: "cfg_U long_mask_config = Some (NdArray 1 [[''RY'']])"
    by (simp add: long_mask_config_def)
  have sv: "cfg_V short_mask_config = Some (NdArray 1 [[''H''], [''H''], [''H'']])"
    by (simp add: short_mask_config_def)
  have su: "cfg_U short_mask_config = Some (NdArray 1 [[''RY''], [''RY''], [''RY'']])"
    by (simp add: short_mask_config_def)
  have a: "qnode_body pennylane_templates 1 long_mask_config ''angle'' [0.1 :: real] [0.5] =
     ([AngleEmbedding [0.1] [0], ExpvalPauliZ 0], Inr [ExpvalPauliZ 0])"
  proof -
    have "qnode_body pennylane_templates 1 long_mask_config ''angle'' [0.1 :: real] [0.5] =
            measure_loop long_mask_config [0..<1] [AngleEmbedding [0.1] [0]] []"
      by (rule qnode_body_arrays [OF e1 lv lu])
    also have "\<dots> = ([AngleEmbedding [0.1] [0], ExpvalPauliZ 0], Inr [ExpvalPauliZ 0])"
      by (simp add: r1 long_mask_config_def)
    finally show ?thesis .
  qed
  have b: "qnode_body pennylane_templates 3 short_mask_config ''angle''
             [0.1, 0.2, 0.3 :: real] [0.5, 0.5, 0.5] =
       ([AngleEmbedding [0.1, 0.2, 0.3] [0, 1, 2], ExpvalPauliZ 0], Inl IndexError)"
  proof -
    have "qnode_body pennylane_templates 3 short_mask_config ''angle''
             [0.1, 0.2, 0.3 :: real] [0.5, 0.5, 0.5] =
            measure_loop short_mask_config [0..<3]
              [AngleEmbedding [0.1, 0.2, 0.3] [0, 1, 2]] []"
      by (rule qnode_body_arrays [OF e3 sv su])
    also have "\<dots> =
       ([AngleEmbedding [0.1, 0.2, 0.3] [0, 1, 2], ExpvalPauliZ 0], Inl IndexError)"
      by (simp add: r3 short_mask_config_def)
    finally show ?thesis .
  qed
  have c: "cfg_M long_mask_config = Some [True, True, True]"
    by (simp add: long_mask_config_def)
  from a b c show ?thesis by simp
qed

text \<open>
  C3, amended: the measurement step reads the mask at the indices below n_qubits only.
  When the mask has at least n_qubits entries, the step appends one request per qubit
  index i below n_qubits with mask[i] true, in ascending order of i, and nothing else:
  the requests are the mask-filtered list of 0, ..., n_qubits - 1 (ascending, without
  repetition, holding exactly the selected indices), as many as there are true entries
  among the first n_qubits entries of the mask. A run that reaches the step (the
  embedding is accepted, the blocks under \<^verbatim>\<open>V\<close> and \<^verbatim>\<open>U\<close> are arrays) queues these
  requests after the embedding, returns them, and hands both to the device. When the
  mask has fewer than n_qubits entries, the step raises IndexError at the first index
  beyond the mask, after the requests for the selected indices before it.
\<close>

theorem C3_measurement_mask:
  fixes tape tape0 :: "'f operation list" and inputs weights :: "'f list"
  assumes "cfg_M config = Some m"
  shows "(n_qubits \<le> length m \<longrightarrow>
            measure_loop config [0..<n_qubits] tape [] =
              (tape @ map ExpvalPauliZ (filter (\<lambda>i. m ! i) [0..<n_qubits]),
               Inr (map ExpvalPauliZ (filter (\<lambda>i. m ! i) [0..<n_qubits])))
            \<and> length (map ExpvalPauliZ (filter (\<lambda>i. m ! i) [0..<n_qubits])
                       :: 'f operation list) = length (filter id (take n_qubits m))
            \<and> sorted_wrt (<) (filter (\<lambda>i. m ! i) [0..<n_qubits])
            \<and> set (filter (\<lambda>i. m ! i) [0..<n_qubits]) = {i. i < n_qubits \<and> m ! i}
            \<and> (embedding tmpl encoding inputs n_qubits = (tape0, Inr ()) \<longrightarrow>
                 cfg_V config = Some (NdArray cv rv) \<longrightarrow>
                 cfg_U config = Some (NdArray cu ru) \<longrightarrow>
                   qnode_body tmpl n_qubits config encoding inputs weights =
                     (tape0 @ map ExpvalPauliZ (filter (\<lambda>i. m ! i) [0..<n_qubits]),
                      Inr (map ExpvalPauliZ (filter (\<lambda>i. m ! i) [0..<n_qubits])))
                   \<and> qnode execute tmpl n_qubits config encoding inputs weights =
                       execute (tape0 @ map ExpvalPauliZ (filter (\<lambda>i. m ! i) [0..<n_qubits]))
                         (map ExpvalPauliZ (filter (\<lambda>i. m ! i) [0..<n_qubits]))))
         \<and> (length m < n_qubits \<longrightarrow>
              measure_loop config [0..<n_qubits] tape [] =
                (tape @ map ExpvalPauliZ (filter (\<lambda>i. m ! i) [0..<length m]),
                 Inl IndexError))"
proof -
  let ?R = "map ExpvalPauliZ (filter (\<lambda>i. m ! i) [0..<n_qubits]) :: 'f operation list"
  have short: "length m < n_qubits \<longrightarrow>
              measure_loop config [0..<n_qubits] tape [] =
                (tape @ map ExpvalPauliZ (filter (\<lambda>i. m ! i) [0..<length m]),
                 Inl IndexError)"
    by (simp add: measure_loop_short [OF assms])
  have long: "n_qubits \<le> length m \<longrightarrow>
            measure_loop config [0..<n_qubits] tape [] = (tape @ ?R, Inr ?R)
            \<and> length ?R = length (filter id (take n_qubits m))
            \<and> sorted_wrt (<) (filter (\<lambda>i. m ! i) [0..<n_qubits])
            \<and> set (filter (\<lambda>i. m ! i) [0..<n_qubits]) = {i. i < n_qubits \<and> m ! i}
            \<and> (embedding tmpl encoding inputs n_qubits = (tape0, Inr ()) \<longrightarrow>
                 cfg_V config = Some (NdArray cv rv) \<longrightarrow>
                 cfg_U config = Some (NdArray cu ru) \<longrightarrow>
                   qnode_body tmpl n_qubits config encoding inputs weights =
                     (tape0 @ ?R, Inr ?R)
                   \<and> qnode execute tmpl n_qubits config encoding inputs weights =
                       execute (tape0 @ ?R) ?R)"
  proof
    assume le: "n_qubits \<le> length m"
    then have bound: "\<forall>i \<in> set [0..<n_qubits]. i < length m" by simp
    have step: "\<And>t. measure_loop config [0..<n_qubits] t ([] :: 'f operation list) =
                  (t @ ?R, Inr ?R)"
      by (simp add: measure_loop_filter [OF assms bound])
    have len: "length ?R = length (filter id (take n_qubits m))"
      using mask_filter_take [OF le] by simp
    have srt: "sorted_wrt (<) (filter (\<lambda>i. m ! i) [0..<n_qubits])"
      by (rule sorted_wrt_filter) (simp add: sorted_wrt_upt)
    have mem: "set (filter (\<lambda>i. m ! i) [0..<n_qubits]) = {i. i < n_qubits \<and> m ! i}"
      by auto
    have run: "embedding tmpl encoding inputs n_qubits = (tape0, Inr ()) \<longrightarrow>
                 cfg_V config = Some (NdArray cv rv) \<longrightarrow>
                 cfg_U config = Some (NdArray cu ru) \<longrightarrow>
                   qnode_body tmpl n_qubits config encoding inputs weights =
                     (tape0 @ ?R, Inr ?R)
                   \<and> qnode execute tmpl n_qubits config encoding inputs weights =
                       execute (tape0 @ ?R) ?R"
    proof (intro impI)
      assume e: "embedding tmpl encoding inputs n_qubits = (tape0, Inr ())"
        and v: "cfg_V config = Some (NdArray cv rv)"
        and u: "cfg_U config = Some (NdArray cu ru)"
      have body: "qnode_body tmpl n_qubits config encoding inputs weights =
                    (tape0 @ ?R, Inr ?R)"
        using qnode_body_arrays [OF e v u] step [of tape0] by simp
      from body qnode_returns [OF body]
      show "qnode_body tmpl n_qubits config encoding inputs weights =
              (tape0 @ ?R, Inr ?R)
            \<and> qnode execute tmpl n_qubits config encoding inputs weights =
                execute (tape0 @ ?R) ?R"
        by blast
    qed
    from step [of tape] len srt mem run
    show "measure_loop config [0..<n_qubits] tape [] = (tape @ ?R, Inr ?R)
            \<and> length ?R = length (filter id (take n_qubits m))
            \<and> sorted_wrt (<) (filter (\<lambda>i. m ! i) [0..<n_qubits])
            \<and> set (filter (\<lambda>i. m ! i) [0..<n_qubits]) = {i. i < n_qubits \<and> m ! i}
            \<and> (embedding tmpl encoding inputs n_qubits = (tape0, Inr ()) \<longrightarrow>
                 cfg_V config = Some (NdArray cv rv) \<longrightarrow>
                 cfg_U config = Some (NdArray cu ru) \<longrightarrow>
                   qnode_body tmpl n_qubits config encoding inputs weights =
                     (tape0 @ ?R, Inr ?R)
                   \<and> qnode execute tmpl n_qubits config encoding inputs weights =
                       execute (tape0 @ ?R) ?R)"
      by blast
  qed
  from long short show ?thesis by blast
qed

theorem C3_measurement_mask_witness:
  "cfg_M array_config = Some [True, False, True]
   \<and> (3::nat) \<le> length [True, False, True]
   \<and> embedding pennylane_templates ''angle'' [0.1, 0.2, 0.3 :: real] 3 =
       ([AngleEmbedding [0.1, 0.2, 0.3] [0, 1, 2]], Inr ())
   \<and> qnode_body pennylane_templates 3 array_config ''angle'' [0.1, 0.2, 0.3 :: real]
       (replicate 6 0.5) =
       ([AngleEmbedding [0.1, 0.2, 0.3] [0, 1, 2], ExpvalPauliZ 0, ExpvalPauliZ 2],
        Inr [ExpvalPauliZ 0, ExpvalPauliZ 2])
   \<and> length (filter id (take 3 [True, False, True])) = 2
   \<and> cfg_M short_mask_config = Some [True]
   \<and> length [True] < (3::nat)
   \<and> measure_loop short_mask_config [0..<3] ([] :: real operation list) [] =
       ([ExpvalPauliZ 0], Inl IndexError)"
proof -
  have m: "cfg_M array_config = Some [True, False, True]"
    by (simp add: array_config_def)
  have v: "cfg_V array_config = Some (NdArray 2
        [[''H'', ''CNOT-2''], [''H'', ''CNOT-3''], [''H'', ''CNOT-1'']])"
    by (simp add: array_config_def)
  have u: "cfg_U array_config = Some (NdArray 3
        [[''RY'', ''CNOT-2'', ''RY''],
         [''RY'', ''CNOT-3'', ''RY''],
         [''RY'', ''CNOT-1'', ''RY'']])"
    by (simp add: array_config_def)
  have r: "[0..<3] = [0, 1, 2]" by (simp add: upt_rec)
  have r1: "[0..<1] = [0]" by (simp add: upt_rec)
  have e: "embedding pennylane_templates ''angle'' [0.1, 0.2, 0.3 :: real] 3 =
             ([AngleEmbedding [0.1, 0.2, 0.3] [0, 1, 2]], Inr ())"
    by (simp add: embedding_def pennylane_templates_def r)
  have l: "(3::nat) \<le> length [True, False, True]" by simp
  have sm: "cfg_M short_mask_config = Some [True]"
    by (simp add: short_mask_config_def)
  have sl: "length [True] < (3::nat)" by simp
  from C3_measurement_mask [OF m, where n_qubits = 3 and tmpl = pennylane_templates
      and encoding = "''angle''" and inputs = "[0.1, 0.2, 0.3 :: real]"
      and weights = "replicate 6 0.5"
      and ?tape0.0 = "[AngleEmbedding [0.1, 0.2, 0.3] [0, 1, 2]]"
      and cv = 2 and cu = 3
      and rv = "[[''H'', ''CNOT-2''], [''H'', ''CNOT-3''], [''H'', ''CNOT-1'']]"
      and ru = "[[''RY'', ''CNOT-2'', ''RY''], [''RY'', ''CNOT-3'', ''RY''],
                 [''RY'', ''CNOT-1'', ''RY'']]"] l e v u
  have run: "qnode_body pennylane_templates 3 array_config ''angle'' [0.1, 0.2, 0.3 :: real]
          (replicate 6 0.5) =
          ([AngleEmbedding [0.1, 0.2, 0.3] [0, 1, 2]]
             @ map ExpvalPauliZ (filter (\<lambda>i. [True, False, True] ! i) [0..<3]),
           Inr (map ExpvalPauliZ (filter (\<lambda>i. [True, False, True] ! i) [0..<3])))"
    by blast
  have run': "qnode_body pennylane_templates 3 array_config ''angle'' [0.1, 0.2, 0.3 :: real]
       (replicate 6 0.5) =
       ([AngleEmbedding [0.1, 0.2, 0.3] [0, 1, 2], ExpvalPauliZ 0, ExpvalPauliZ 2],
        Inr [ExpvalPauliZ 0, ExpvalPauliZ 2])"
    unfolding run by (simp add: r)
  from C3_measurement_mask [OF sm, where n_qubits = 3
      and tape = "[] :: real operation list"] sl
  have "measure_loop short_mask_config [0..<3] ([] :: real operation list) [] =
          ([] @ map ExpvalPauliZ (filter (\<lambda>i. [True] ! i) [0..<length [True]]), Inl IndexError)"
    by blast
  then have short: "measure_loop short_mask_config [0..<3] ([] :: real operation list) [] =
       ([ExpvalPauliZ 0], Inl IndexError)"
    by (simp add: r1)
  from m l e run' sm sl short show ?thesis by simp
qed




end
